theory Spec2Isabelle
  imports Main
begin

section \<open>JavaScript values and effectful programs\<close>

text \<open>
  A value that a JavaScript \<^verbatim>\<open>throw\<close> (or a rejected promise) carries. The code tests
  \<^verbatim>\<open>err instanceof Error\<close> and reads \<^verbatim>\<open>err.message\<close>, so the model keeps exactly these two
  observations: \<open>ErrorInstance m\<close> is an instance of \<^verbatim>\<open>Error\<close> whose message is \<open>m\<close>;
  \<open>PlainValue p\<close> is any other thrown value, \<open>p\<close> being its \<^verbatim>\<open>message\<close> property when it has
  one (a thrown string has none, a thrown object literal may have one).
\<close>

datatype thrown = ErrorInstance string | PlainValue "string option"

fun message_of :: "thrown \<Rightarrow> string option" where
  "message_of (ErrorInstance m) = Some m"
| "message_of (PlainValue p) = p"

text \<open>
  A statement sequence over a mutable state \<open>'s\<close> that either completes with a value
  (\<open>Inr\<close>) or throws (\<open>Inl\<close>); the state reached so far is kept in both cases, as the
  assignments made before a \<^verbatim>\<open>throw\<close> are.
\<close>

type_synonym ('s, 'a) prog = "'s \<Rightarrow> (thrown + 'a) \<times> 's"

definition ret :: "'a \<Rightarrow> ('s, 'a) prog" where
  "ret x = (\<lambda>s. (Inr x, s))"

definition throw :: "thrown \<Rightarrow> ('s, 'a) prog" where
  "throw e = (\<lambda>s. (Inl e, s))"

definition bind :: "('s, 'a) prog \<Rightarrow> ('a \<Rightarrow> ('s, 'b) prog) \<Rightarrow> ('s, 'b) prog" where
  "bind m f = (\<lambda>s. case m s of (Inl e, s') \<Rightarrow> (Inl e, s') | (Inr x, s') \<Rightarrow> f x s')"

definition seq :: "('s, unit) prog \<Rightarrow> ('s, 'b) prog \<Rightarrow> ('s, 'b) prog" where
  "seq m n = bind m (\<lambda>_. n)"

definition try_catch :: "('s, 'a) prog \<Rightarrow> (thrown \<Rightarrow> ('s, 'a) prog) \<Rightarrow> ('s, 'a) prog" where
  "try_catch m h = (\<lambda>s. case m s of (Inl e, s') \<Rightarrow> h e s' | (Inr x, s') \<Rightarrow> (Inr x, s'))"

text \<open>
  \<^verbatim>\<open>try { m } finally { fin }\<close>: \<open>fin\<close> runs however \<open>m\<close> completes; the completion of \<open>m\<close>
  is kept unless \<open>fin\<close> itself throws.
\<close>

definition try_finally :: "('s, 'a) prog \<Rightarrow> ('s, unit) prog \<Rightarrow> ('s, 'a) prog" where
  "try_finally m fin =
     (\<lambda>s. case m s of (r, s') \<Rightarrow>
        (case fin s' of (Inl e, s'') \<Rightarrow> (Inl e, s'') | (Inr u, s'') \<Rightarrow> (r, s'')))"

section \<open>Environment and client construction (client.ts, server.ts)\<close>

text \<open>\<^verbatim>\<open>process.env\<close>: a variable is unset (\<open>None\<close>) or holds a string.\<close>

type_synonym env = "string \<Rightarrow> string option"

text \<open>\<^verbatim>\<open>!v\<close> for \<^verbatim>\<open>v: string | undefined\<close>: true for \<^verbatim>\<open>undefined\<close> and for the empty string.\<close>

definition falsy :: "string option \<Rightarrow> bool" where
  "falsy v = (case v of None \<Rightarrow> True | Some s \<Rightarrow> s = [])"

record auth_options =
  autoRefreshToken :: bool
  persistSession :: bool
  detectSessionInUrl :: bool
  flowType :: "string option"

text \<open>
  The options object handed to the SDK factory. \<open>cookies\<close> tells whether the
  \<^verbatim>\<open>cookies: { getAll, setAll }\<close> callbacks are installed; \<open>db_schema\<close> is \<^verbatim>\<open>db.schema\<close>.
\<close>

record client_options =
  cookies :: bool
  auth :: auth_options
  global_headers :: "(string \<times> string) list"
  db_schema :: "string option"

datatype sdk_factory = CreateClient | CreateSSRBrowserClient | CreateSSRServerClient

text \<open>
  A client object as an SDK factory call returns it: \<open>object_id\<close> is its identity (what
  \<^verbatim>\<open>===\<close> compares), the other fields are the factory and the arguments of that call.
\<close>

record supabase_client =
  object_id :: nat
  factory :: sdk_factory
  supabaseUrl :: string
  supabaseKey :: string
  options :: client_options

datatype external_call = CallFactory sdk_factory | CallCookies | CallGetUser | CallGetSession

text \<open>
  The state of the JavaScript runtime that client.ts and server.ts touch: the two
  module-level variables, and the log of calls that left the repository's code (SDK and
  framework).
\<close>

record runtime =
  clientInstance :: "supabase_client option"
  adminClientInstance :: "supabase_client option"
  external_calls :: "external_call list"

text \<open>
  A call of one of the SDK factories \<^verbatim>\<open>createClient\<close>, \<^verbatim>\<open>createBrowserClient\<close> and
  \<^verbatim>\<open>createServerClient\<close> of the external packages. The call is logged. What it does is not
  decided by this repository, so it is taken as \<open>outcome\<close>: the factory throws (\<open>Inl\<close>,
  as on a malformed URL), or it returns the object with the given identity (\<open>Inr\<close>), which
  need not be a new one (a factory may hand back a client that it keeps itself).
\<close>

type_synonym factory_outcome = "thrown + nat"

definition sdk_create ::
  "sdk_factory \<Rightarrow> string \<Rightarrow> string \<Rightarrow> client_options \<Rightarrow> factory_outcome
     \<Rightarrow> (runtime, supabase_client) prog" where
  "sdk_create f url key opts outcome =
     (\<lambda>rt. (case outcome of
              Inl e \<Rightarrow> Inl e
            | Inr i \<Rightarrow> Inr \<lparr>object_id = i, factory = f, supabaseUrl = url,
                           supabaseKey = key, options = opts\<rparr>,
            rt\<lparr>external_calls := external_calls rt @ [CallFactory f]\<rparr>))"

text \<open>The first three bytes of the two messages are the UTF-8 encoding of U+274C.\<close>

definition missing_anon_message :: string where
  "missing_anon_message = [CHR 0xE2, CHR 0x9D, CHR 0x8C] @
     '' Missing Supabase environment variables. Please set NEXT_PUBLIC_SUPABASE_URL and NEXT_PUBLIC_SUPABASE_ANON_KEY''"

definition missing_service_message :: string where
  "missing_service_message = [CHR 0xE2, CHR 0x9D, CHR 0x8C] @
     '' Missing Supabase environment variables. Please set NEXT_PUBLIC_SUPABASE_URL and SUPABASE_SERVICE_ROLE_KEY''"

definition browser_options :: client_options where
  "browser_options =
     \<lparr>cookies = False,
      auth = \<lparr>autoRefreshToken = True, persistSession = True, detectSessionInUrl = True,
              flowType = Some ''pkce''\<rparr>,
      global_headers = [(''X-Client-Info'', ''payeasy-web@1.0.0'')],
      db_schema = None\<rparr>"

definition admin_options :: client_options where
  "admin_options =
     \<lparr>cookies = False,
      auth = \<lparr>autoRefreshToken = False, persistSession = False, detectSessionInUrl = False,
              flowType = None\<rparr>,
      global_headers = [(''X-Client-Info'', ''payeasy-admin@1.0.0'')],
      db_schema = Some ''public''\<rparr>"

definition server_options :: client_options where
  "server_options =
     \<lparr>cookies = True,
      auth = \<lparr>autoRefreshToken = True, persistSession = True, detectSessionInUrl = False,
              flowType = Some ''pkce''\<rparr>,
      global_headers = [(''X-Client-Info'', ''payeasy-server@1.0.0'')],
      db_schema = None\<rparr>"

subsection \<open>client.ts\<close>

definition createBrowserClient :: "env \<Rightarrow> factory_outcome \<Rightarrow> (runtime, supabase_client) prog" where
  "createBrowserClient env factory_outcome =
     (let supabaseUrl = env ''NEXT_PUBLIC_SUPABASE_URL'';
          supabaseAnonKey = env ''NEXT_PUBLIC_SUPABASE_ANON_KEY''
      in if falsy supabaseUrl \<or> falsy supabaseAnonKey
         then throw (ErrorInstance missing_anon_message)
         else sdk_create CreateSSRBrowserClient (the supabaseUrl) (the supabaseAnonKey)
                browser_options factory_outcome)"

definition getSupabaseClient :: "env \<Rightarrow> factory_outcome \<Rightarrow> (runtime, supabase_client) prog" where
  "getSupabaseClient env factory_outcome =
     (\<lambda>rt. case clientInstance rt of
        None \<Rightarrow>
          bind (createBrowserClient env factory_outcome)
            (\<lambda>c rt'. (Inr c, rt'\<lparr>clientInstance := Some c\<rparr>)) rt
      | Some c \<Rightarrow> (Inr c, rt))"

definition resetClientInstance :: "runtime \<Rightarrow> runtime" where
  "resetClientInstance rt = rt\<lparr>clientInstance := None\<rparr>"

subsection \<open>server.ts\<close>

definition createAdminClient :: "env \<Rightarrow> factory_outcome \<Rightarrow> (runtime, supabase_client) prog" where
  "createAdminClient env factory_outcome =
     (let supabaseUrl = env ''NEXT_PUBLIC_SUPABASE_URL'';
          supabaseServiceKey = env ''SUPABASE_SERVICE_ROLE_KEY''
      in if falsy supabaseUrl \<or> falsy supabaseServiceKey
         then throw (ErrorInstance missing_service_message)
         else sdk_create CreateClient (the supabaseUrl) (the supabaseServiceKey)
                admin_options factory_outcome)"

definition getAdminClient :: "env \<Rightarrow> factory_outcome \<Rightarrow> (runtime, supabase_client) prog" where
  "getAdminClient env factory_outcome =
     (\<lambda>rt. case adminClientInstance rt of
        None \<Rightarrow>
          bind (createAdminClient env factory_outcome)
            (\<lambda>c rt'. (Inr c, rt'\<lparr>adminClientInstance := Some c\<rparr>)) rt
      | Some c \<Rightarrow> (Inr c, rt))"

definition resetAdminClientInstance :: "runtime \<Rightarrow> runtime" where
  "resetAdminClientInstance rt = rt\<lparr>adminClientInstance := None\<rparr>"

text \<open>
  \<^verbatim>\<open>await cookies()\<close> of next/headers: the framework call is logged; \<open>outcome\<close> is what it
  settles with, the request's cookie store or a rejection (outside a request scope).
\<close>

definition await_cookies :: "thrown + 'c \<Rightarrow> (runtime, 'c) prog" where
  "await_cookies outcome =
     (\<lambda>rt. (outcome, rt\<lparr>external_calls := external_calls rt @ [CallCookies]\<rparr>))"

definition createServerClient ::
  "env \<Rightarrow> thrown + 'c \<Rightarrow> factory_outcome \<Rightarrow> (runtime, supabase_client) prog" where
  "createServerClient env cookies_outcome factory_outcome =
     (let supabaseUrl = env ''NEXT_PUBLIC_SUPABASE_URL'';
          supabaseAnonKey = env ''NEXT_PUBLIC_SUPABASE_ANON_KEY''
      in if falsy supabaseUrl \<or> falsy supabaseAnonKey
         then throw (ErrorInstance missing_anon_message)
         else bind (await_cookies cookies_outcome)
                (\<lambda>cookieStore. sdk_create CreateSSRServerClient (the supabaseUrl)
                                 (the supabaseAnonKey) server_options factory_outcome))"

subsection \<open>Cookie callbacks of the server client\<close>

text \<open>
  \<^verbatim>\<open>cookiesToSet.forEach(f)\<close>: the callback runs on each element in order; a throw inside
  it ends the loop and leaves the remaining elements untouched.
\<close>

fun forEach :: "'a list \<Rightarrow> ('a \<Rightarrow> ('s, unit) prog) \<Rightarrow> ('s, unit) prog" where
  "forEach [] f = ret ()"
| "forEach (x # xs) f = seq (f x) (forEach xs f)"

record 'o cookie_to_set =
  cookie_name :: string
  cookie_value :: string
  cookie_options :: 'o

text \<open>
  The request's cookie store that \<^verbatim>\<open>await cookies()\<close> yields, an object of next/headers: its
  two methods are taken as they are, over a store state \<open>'s\<close>; \<open>store_set\<close> may throw
  (the framework forbids writing cookies while a Server Component renders).
\<close>

record ('s, 'o, 'r) cookieStore =
  store_getAll :: "('s, 'r list) prog"
  store_set :: "string \<Rightarrow> string \<Rightarrow> 'o \<Rightarrow> ('s, unit) prog"

definition getAll :: "('s, 'o, 'r) cookieStore \<Rightarrow> ('s, 'r list) prog" where
  "getAll cookieStore = store_getAll cookieStore"

definition setAll :: "('s, 'o, 'r) cookieStore \<Rightarrow> 'o cookie_to_set list \<Rightarrow> ('s, unit) prog" where
  "setAll cookieStore cookiesToSet =
     try_catch
       (forEach cookiesToSet
          (\<lambda>c. store_set cookieStore (cookie_name c) (cookie_value c) (cookie_options c)))
       (\<lambda>error. ret ())"

text \<open>
  Two cookie stores as concrete inputs: while a Server Component renders the store is
  read-only and \<^verbatim>\<open>set\<close> throws; in a Route Handler \<^verbatim>\<open>set\<close> records the cookie. The store
  state is the list of name and value pairs.
\<close>

definition render_store :: "((string \<times> string) list, 'o, string \<times> string) cookieStore" where
  "render_store =
     \<lparr>store_getAll = (\<lambda>s. (Inr s, s)),
      store_set = (\<lambda>n v opts. throw (ErrorInstance ''Cookies can only be modified in a Server Action or Route Handler''))\<rparr>"

definition handler_store :: "((string \<times> string) list, 'o, string \<times> string) cookieStore" where
  "handler_store =
     \<lparr>store_getAll = (\<lambda>s. (Inr s, s)),
      store_set = (\<lambda>n v opts s. (Inr (), s @ [(n, v)]))\<rparr>"

subsection \<open>Current user and session\<close>

record User =
  user_id :: string
  user_email :: "string option"

text \<open>The field \<open>session_user\<close> is \<^verbatim>\<open>Session.user\<close>.\<close>

record Session =
  access_token :: string
  session_user :: User

text \<open>\<^verbatim>\<open>AuthError\<close> of the SDK, a subclass of \<^verbatim>\<open>Error\<close>; \<open>message\<close> is its \<^verbatim>\<open>message\<close>.\<close>

datatype AuthError = AuthError (message: string)

text \<open>
  What an awaited SDK call settles with: a rejection (\<open>Inl\<close>) or the response object,
  here the pair of its \<^verbatim>\<open>data\<close> payload and its \<^verbatim>\<open>error\<close> field (\<open>None\<close> is \<^verbatim>\<open>null\<close>).
\<close>

type_synonym 'a sdk_outcome = "thrown + ('a option \<times> AuthError option)"

definition auth_getUser :: "User sdk_outcome \<Rightarrow> (runtime, User option \<times> AuthError option) prog" where
  "auth_getUser outcome =
     (\<lambda>rt. (outcome, rt\<lparr>external_calls := external_calls rt @ [CallGetUser]\<rparr>))"

definition auth_getSession ::
  "Session sdk_outcome \<Rightarrow> (runtime, Session option \<times> AuthError option) prog" where
  "auth_getSession outcome =
     (\<lambda>rt. (outcome, rt\<lparr>external_calls := external_calls rt @ [CallGetSession]\<rparr>))"

definition getCurrentUser ::
  "env \<Rightarrow> thrown + 'c \<Rightarrow> factory_outcome \<Rightarrow> User sdk_outcome \<Rightarrow> (runtime, User option) prog" where
  "getCurrentUser env cookies_outcome factory_outcome getUser_outcome =
     bind (createServerClient env cookies_outcome factory_outcome) (\<lambda>supabase.
     bind (auth_getUser getUser_outcome) (\<lambda>(user, error).
       if error \<noteq> None \<or> user = None then ret None else ret user))"

definition getCurrentSession ::
  "env \<Rightarrow> thrown + 'c \<Rightarrow> factory_outcome \<Rightarrow> Session sdk_outcome
     \<Rightarrow> (runtime, Session option) prog" where
  "getCurrentSession env cookies_outcome factory_outcome getSession_outcome =
     bind (createServerClient env cookies_outcome factory_outcome) (\<lambda>supabase.
     bind (auth_getSession getSession_outcome) (\<lambda>(session, error).
       if error \<noteq> None \<or> session = None then ret None else ret session))"

subsection \<open>Sequences of accessor calls\<close>

text \<open>
  The exported accessors and resets of the two modules, as a caller can invoke them one
  after the other; each call sees the environment of its moment, and comes with what the
  SDK factory would do if the call reached it.
\<close>

datatype module_call =
  GetSupabaseClient | ResetClientInstance | GetAdminClient | ResetAdminClientInstance

fun call :: "env \<Rightarrow> factory_outcome \<Rightarrow> module_call \<Rightarrow> (runtime, supabase_client option) prog" where
  "call env fo GetSupabaseClient = bind (getSupabaseClient env fo) (\<lambda>c. ret (Some c))"
| "call env fo ResetClientInstance = (\<lambda>rt. (Inr None, resetClientInstance rt))"
| "call env fo GetAdminClient = bind (getAdminClient env fo) (\<lambda>c. ret (Some c))"
| "call env fo ResetAdminClientInstance = (\<lambda>rt. (Inr None, resetAdminClientInstance rt))"

text \<open>A caller that goes on after a failed call: the completions are collected in order.\<close>

fun run_calls ::
  "(env \<times> factory_outcome \<times> module_call) list \<Rightarrow> runtime
     \<Rightarrow> (thrown + supabase_client option) list \<times> runtime" where
  "run_calls [] rt = ([], rt)"
| "run_calls ((env, fo, q) # qs) rt =
     (case call env fo q rt of (r, rt') \<Rightarrow>
        (case run_calls qs rt' of (rs, rt'') \<Rightarrow> (r # rs, rt'')))"

text \<open>The call that item \<open>p\<close> of such a sequence makes.\<close>

definition call_of :: "env \<times> factory_outcome \<times> module_call \<Rightarrow> module_call" where
  "call_of p = snd (snd p)"

definition initial_runtime :: runtime where
  "initial_runtime =
     \<lparr>clientInstance = None, adminClientInstance = None, external_calls = []\<rparr>"

definition configured :: "env \<Rightarrow> string \<Rightarrow> bool" where
  "configured env key_variable =
     (\<not> falsy (env ''NEXT_PUBLIC_SUPABASE_URL'') \<and> \<not> falsy (env key_variable))"

text \<open>Three environments used as concrete inputs below.\<close>

definition env_unset :: env where
  "env_unset = (\<lambda>k. None)"

definition env_full :: env where
  "env_full = (\<lambda>k.
     if k = ''NEXT_PUBLIC_SUPABASE_URL'' then Some ''https://payeasy.supabase.co''
     else if k = ''NEXT_PUBLIC_SUPABASE_ANON_KEY'' then Some ''anon-key''
     else if k = ''SUPABASE_SERVICE_ROLE_KEY'' then Some ''service-key''
     else None)"

definition env_empty_key :: env where
  "env_empty_key = (\<lambda>k.
     if k = ''NEXT_PUBLIC_SUPABASE_URL'' then Some ''https://payeasy.supabase.co''
     else if k = ''NEXT_PUBLIC_SUPABASE_ANON_KEY'' then Some []
     else if k = ''SUPABASE_SERVICE_ROLE_KEY'' then Some []
     else None)"

text \<open>
  The objects the browser and the admin accessor get from \<open>env_full\<close> when the factory
  returns the object of identity 0.
\<close>

definition first_browser_client :: supabase_client where
  "first_browser_client =
     \<lparr>object_id = 0, factory = CreateSSRBrowserClient,
      supabaseUrl = ''https://payeasy.supabase.co'', supabaseKey = ''anon-key'',
      options = browser_options\<rparr>"

definition first_admin_client :: supabase_client where
  "first_admin_client =
     \<lparr>object_id = 0, factory = CreateClient,
      supabaseUrl = ''https://payeasy.supabase.co'', supabaseKey = ''service-key'',
      options = admin_options\<rparr>"

section \<open>The authentication hook (useAuth.ts)\<close>

datatype router_call = Push string | Refresh

datatype auth_call = GetSession | OnAuthStateChange | SignOut | Unsubscribe

text \<open>
  One mounted \<^verbatim>\<open>useAuth\<close>: the four \<^verbatim>\<open>useState\<close> cells, and the calls made so far on the
  router and on \<^verbatim>\<open>supabase.auth\<close>.
\<close>

record component =
  user :: "User option"
  session :: "Session option"
  loading :: bool
  error :: "string option"
  router_log :: "router_call list"
  auth_log :: "auth_call list"

text \<open>The initial values given to \<^verbatim>\<open>useState\<close>.\<close>

definition initial_component :: component where
  "initial_component =
     \<lparr>user = None, session = None, loading = True, error = None,
      router_log = [], auth_log = []\<rparr>"

definition setUser :: "User option \<Rightarrow> (component, unit) prog" where
  "setUser u = (\<lambda>s. (Inr (), s\<lparr>user := u\<rparr>))"

definition setSession :: "Session option \<Rightarrow> (component, unit) prog" where
  "setSession x = (\<lambda>s. (Inr (), s\<lparr>session := x\<rparr>))"

definition setLoading :: "bool \<Rightarrow> (component, unit) prog" where
  "setLoading b = (\<lambda>s. (Inr (), s\<lparr>loading := b\<rparr>))"

definition setError :: "string option \<Rightarrow> (component, unit) prog" where
  "setError e = (\<lambda>s. (Inr (), s\<lparr>error := e\<rparr>))"

definition router_push :: "string \<Rightarrow> (component, unit) prog" where
  "router_push href = (\<lambda>s. (Inr (), s\<lparr>router_log := router_log s @ [Push href]\<rparr>))"

definition router_refresh :: "(component, unit) prog" where
  "router_refresh = (\<lambda>s. (Inr (), s\<lparr>router_log := router_log s @ [Refresh]\<rparr>))"

text \<open>
  An awaited call on \<^verbatim>\<open>supabase.auth\<close>: it is logged, and \<open>outcome\<close> is what the promise
  settles with.
\<close>

definition await_auth :: "auth_call \<Rightarrow> thrown + 'a \<Rightarrow> (component, 'a) prog" where
  "await_auth c outcome = (\<lambda>s. (outcome, s\<lparr>auth_log := auth_log s @ [c]\<rparr>))"

text \<open>\<^verbatim>\<open>err instanceof Error ? err.message : fallback\<close>\<close>

fun message_or :: "string \<Rightarrow> thrown \<Rightarrow> string" where
  "message_or fallback (ErrorInstance m) = m"
| "message_or fallback (PlainValue p) = fallback"

text \<open>
  \<^verbatim>\<open>getInitialSession\<close>, the call and its continuation after the \<^verbatim>\<open>await\<close>. The \<^verbatim>\<open>return\<close>
  under \<^verbatim>\<open>if (sessionError)\<close> skips the two setters that follow, not the \<^verbatim>\<open>finally\<close> block.
\<close>

definition getInitialSession :: "Session sdk_outcome \<Rightarrow> (component, unit) prog" where
  "getInitialSession outcome =
     try_finally
       (try_catch
          (bind (await_auth GetSession outcome) (\<lambda>(currentSession, sessionError).
             case sessionError of
               Some e \<Rightarrow> setError (Some (message e))
             | None \<Rightarrow>
                 seq (setSession currentSession)
                     (setUser (map_option session_user currentSession))))
          (\<lambda>err. setError (Some (message_or ''Failed to get session'' err))))
       (setLoading False)"

text \<open>The listener passed to \<^verbatim>\<open>onAuthStateChange\<close>.\<close>

definition authStateChange_listener :: "string \<Rightarrow> Session option \<Rightarrow> (component, unit) prog" where
  "authStateChange_listener event currentSession =
     seq (setSession currentSession)
    (seq (setUser (map_option session_user currentSession))
    (seq (setLoading False)
         (if event = ''SIGNED_IN'' \<or> event = ''SIGNED_OUT'' then router_refresh else ret ())))"

text \<open>
  The body of the \<^verbatim>\<open>useEffect\<close>, run when the hook mounts: it starts \<^verbatim>\<open>getInitialSession()\<close>
  (not awaited; the promise never rejects) and subscribes the listener. The continuation of
  the fetch is placed where the fetch starts; the subscription itself writes no state cell.
\<close>

definition useEffect_body :: "Session sdk_outcome \<Rightarrow> (component, unit) prog" where
  "useEffect_body outcome =
     seq (getInitialSession outcome) (await_auth OnAuthStateChange (Inr ()))"

definition useEffect_cleanup :: "(component, unit) prog" where
  "useEffect_cleanup = await_auth Unsubscribe (Inr ())"

text \<open>
  Mounting the hook: the four cells get their \<^verbatim>\<open>useState\<close> initial values and the effect
  runs. The router and \<^verbatim>\<open>supabase.auth\<close> outlive the component, so their call logs go on
  from those of \<open>previous\<close>. Unmounting runs the cleanup.
\<close>

definition mount :: "Session sdk_outcome \<Rightarrow> (component, unit) prog" where
  "mount outcome =
     (\<lambda>previous. useEffect_body outcome
        (initial_component\<lparr>router_log := router_log previous, auth_log := auth_log previous\<rparr>))"

definition unmount :: "(component, unit) prog" where
  "unmount = useEffect_cleanup"

text \<open>The hook mounted and unmounted once for each element of the list.\<close>

fun mounts :: "Session sdk_outcome list \<Rightarrow> component \<Rightarrow> component" where
  "mounts [] s = s"
| "mounts (outcome # outcomes) s = mounts outcomes (snd (unmount (snd (mount outcome s))))"

text \<open>
  \<^verbatim>\<open>signOut\<close>; \<open>outcome\<close> is what \<^verbatim>\<open>supabase.auth.signOut()\<close> settles with, its response being
  the \<^verbatim>\<open>error\<close> field alone. A returned \<^verbatim>\<open>signOutError\<close> is thrown as the \<^verbatim>\<open>Error\<close> instance it
  is.
\<close>

definition signOut :: "thrown + AuthError option \<Rightarrow> (component, unit) prog" where
  "signOut outcome =
     try_finally
       (try_catch
          (seq (setLoading True)
          (seq (setError None)
          (bind (await_auth SignOut outcome) (\<lambda>signOutError.
          (seq (case signOutError of
                  Some e \<Rightarrow> seq (setError (Some (message e))) (throw (ErrorInstance (message e)))
                | None \<Rightarrow> ret ())
          (seq (setUser None)
          (seq (setSession None)
          (seq (router_push ''/'')
               router_refresh))))))))
          (\<lambda>err. seq (setError (Some (message_or ''Failed to sign out'' err))) (throw err)))
       (setLoading False)"

section \<open>Missing configuration\<close>

lemma falsy_simps [simp]: "falsy None" "falsy (Some s) = (s = [])"
  by (simp_all add: falsy_def)

text \<open>
  C1. Whenever the service URL or the key variable of a constructor is unset or empty, the
  constructor fails with the configuration error, and the runtime is left as it was: no
  SDK factory and no framework call was made before the throw. This holds for the browser
  client, the admin client and the cookie-scoped server client, each with its own key
  variable.
\<close>

theorem missing_configuration_throws:
  "(falsy (env ''NEXT_PUBLIC_SUPABASE_URL'') \<or> falsy (env ''NEXT_PUBLIC_SUPABASE_ANON_KEY'')
      \<longrightarrow> createBrowserClient env factory_outcome rt
            = (Inl (ErrorInstance missing_anon_message), rt))
   \<and> (falsy (env ''NEXT_PUBLIC_SUPABASE_URL'') \<or> falsy (env ''SUPABASE_SERVICE_ROLE_KEY'')
      \<longrightarrow> createAdminClient env factory_outcome rt
            = (Inl (ErrorInstance missing_service_message), rt))
   \<and> (falsy (env ''NEXT_PUBLIC_SUPABASE_URL'') \<or> falsy (env ''NEXT_PUBLIC_SUPABASE_ANON_KEY'')
      \<longrightarrow> createServerClient env cookies_outcome factory_outcome rt
            = (Inl (ErrorInstance missing_anon_message), rt))"
  by (simp add: createBrowserClient_def createAdminClient_def createServerClient_def
      throw_def Let_def)

theorem missing_configuration_throws_witness:
  "createBrowserClient env_unset (Inr 0) initial_runtime
     = (Inl (ErrorInstance missing_anon_message), initial_runtime)
   \<and> createAdminClient env_empty_key (Inr 0) initial_runtime
     = (Inl (ErrorInstance missing_service_message), initial_runtime)
   \<and> createServerClient env_empty_key (Inr ()) (Inr 0) initial_runtime
     = (Inl (ErrorInstance missing_anon_message), initial_runtime)"
  using missing_configuration_throws [of env_unset "Inr 0" initial_runtime "Inr ()"]
    missing_configuration_throws [of env_empty_key "Inr 0" initial_runtime "Inr ()"]
  by (simp add: env_unset_def env_empty_key_def)

section \<open>Fixed session options\<close>

text \<open>
  C7. Whatever the environment, a successfully constructed admin client has session
  persistence and automatic token refresh switched off, and a successfully constructed
  cookie-scoped server client has both switched on.
\<close>

theorem session_options_fixed:
  "(createAdminClient env factory_outcome rt = (Inr c, rt')
      \<longrightarrow> \<not> persistSession (auth (options c)) \<and> \<not> autoRefreshToken (auth (options c)))
   \<and> (createServerClient env cookies_outcome factory_outcome rt = (Inr c, rt')
      \<longrightarrow> persistSession (auth (options c)) \<and> autoRefreshToken (auth (options c)))"
  by (auto simp: createAdminClient_def createServerClient_def throw_def Let_def bind_def
      await_cookies_def sdk_create_def admin_options_def server_options_def
      split: if_splits sum.splits)

theorem session_options_fixed_witness:
  "createAdminClient env_full (Inr 0) initial_runtime
     = (Inr \<lparr>object_id = 0, factory = CreateClient,
             supabaseUrl = ''https://payeasy.supabase.co'', supabaseKey = ''service-key'',
             options = admin_options\<rparr>,
        initial_runtime\<lparr>external_calls := [CallFactory CreateClient]\<rparr>)
   \<and> \<not> persistSession (auth admin_options) \<and> \<not> autoRefreshToken (auth admin_options)
   \<and> createServerClient env_full (Inr ()) (Inr 0) initial_runtime
     = (Inr \<lparr>object_id = 0, factory = CreateSSRServerClient,
             supabaseUrl = ''https://payeasy.supabase.co'', supabaseKey = ''anon-key'',
             options = server_options\<rparr>,
        initial_runtime\<lparr>external_calls := [CallCookies, CallFactory CreateSSRServerClient]\<rparr>)
   \<and> persistSession (auth server_options) \<and> autoRefreshToken (auth server_options)"
proof -
  let ?a = "\<lparr>object_id = 0, factory = CreateClient,
             supabaseUrl = ''https://payeasy.supabase.co'', supabaseKey = ''service-key'',
             options = admin_options\<rparr>"
  let ?s = "\<lparr>object_id = 0, factory = CreateSSRServerClient,
             supabaseUrl = ''https://payeasy.supabase.co'', supabaseKey = ''anon-key'',
             options = server_options\<rparr>"
  have admin: "createAdminClient env_full (Inr 0) initial_runtime
      = (Inr ?a, initial_runtime\<lparr>external_calls := [CallFactory CreateClient]\<rparr>)"
    by (simp add: createAdminClient_def env_full_def sdk_create_def initial_runtime_def)
  have server: "createServerClient env_full (Inr ()) (Inr 0) initial_runtime
      = (Inr ?s, initial_runtime\<lparr>external_calls :=
           [CallCookies, CallFactory CreateSSRServerClient]\<rparr>)"
    by (simp add: createServerClient_def env_full_def sdk_create_def initial_runtime_def
        bind_def await_cookies_def)
  from session_options_fixed [of env_full "Inr 0" initial_runtime ?a _ "Inr ()"] admin
  have "\<not> persistSession (auth admin_options) \<and> \<not> autoRefreshToken (auth admin_options)"
    by simp
  moreover
  from session_options_fixed [of env_full "Inr 0" initial_runtime ?s _ "Inr ()"] server
  have "persistSession (auth server_options) \<and> autoRefreshToken (auth server_options)"
    by simp
  ultimately show ?thesis using admin server by simp
qed

section \<open>Singleton accessors\<close>

lemma getSupabaseClient_cached:
  "clientInstance rt = Some c \<Longrightarrow> getSupabaseClient env fo rt = (Inr c, rt)"
  by (simp add: getSupabaseClient_def)

lemma getAdminClient_cached:
  "adminClientInstance rt = Some c \<Longrightarrow> getAdminClient env fo rt = (Inr c, rt)"
  by (simp add: getAdminClient_def)

lemma getSupabaseClient_caches:
  "getSupabaseClient env fo rt = (Inr c, rt') \<Longrightarrow> clientInstance rt' = Some c"
  by (auto simp: getSupabaseClient_def bind_def createBrowserClient_def throw_def
      sdk_create_def Let_def split: option.splits if_splits sum.splits)

lemma getAdminClient_caches:
  "getAdminClient env fo rt = (Inr c, rt') \<Longrightarrow> adminClientInstance rt' = Some c"
  by (auto simp: getAdminClient_def bind_def createAdminClient_def throw_def
      sdk_create_def Let_def split: option.splits if_splits sum.splits)

lemma getSupabaseClient_keeps_admin:
  "adminClientInstance (snd (getSupabaseClient env fo rt)) = adminClientInstance rt"
  by (auto simp: getSupabaseClient_def bind_def createBrowserClient_def
      throw_def sdk_create_def Let_def split: option.splits if_splits sum.splits)

lemma getAdminClient_keeps_browser:
  "clientInstance (snd (getAdminClient env fo rt)) = clientInstance rt"
  by (auto simp: getAdminClient_def bind_def createAdminClient_def
      throw_def sdk_create_def Let_def split: option.splits if_splits sum.splits)

lemma snd_call_simps:
  "snd (call env fo GetSupabaseClient rt) = snd (getSupabaseClient env fo rt)"
  "snd (call env fo GetAdminClient rt) = snd (getAdminClient env fo rt)"
  "snd (call env fo ResetClientInstance rt) = resetClientInstance rt"
  "snd (call env fo ResetAdminClientInstance rt) = resetAdminClientInstance rt"
  by (auto simp: bind_def ret_def split: prod.splits sum.splits)

lemma snd_run_calls_Cons:
  "snd (run_calls ((env, fo, q) # qs) rt) = snd (run_calls qs (snd (call env fo q rt)))"
  by (auto split: prod.splits)

lemma fst_run_calls_Cons:
  "fst (run_calls ((env, fo, q) # qs) rt)
     = fst (call env fo q rt) # fst (run_calls qs (snd (call env fo q rt)))"
  by (auto split: prod.splits)

lemma call_keeps_browser:
  assumes "clientInstance rt = Some c" and "q \<noteq> ResetClientInstance"
  shows "clientInstance (snd (call env fo q rt)) = Some c
         \<and> count_list (external_calls (snd (call env fo q rt))) (CallFactory CreateSSRBrowserClient)
             = count_list (external_calls rt) (CallFactory CreateSSRBrowserClient)
         \<and> (q = GetSupabaseClient \<longrightarrow> fst (call env fo q rt) = Inr (Some c))"
proof (cases q)
  case GetSupabaseClient
  from assms(1) have "call env fo GetSupabaseClient rt = (Inr (Some c), rt)"
    by (simp add: getSupabaseClient_cached bind_def ret_def)
  with assms(1) show ?thesis by (simp add: GetSupabaseClient)
next
  case GetAdminClient
  have "clientInstance (snd (getAdminClient env fo rt)) = clientInstance rt"
    by (rule getAdminClient_keeps_browser)
  moreover have "count_list (external_calls (snd (getAdminClient env fo rt))) (CallFactory CreateSSRBrowserClient)
      = count_list (external_calls rt) (CallFactory CreateSSRBrowserClient)"
    by (auto simp: getAdminClient_def bind_def createAdminClient_def throw_def sdk_create_def Let_def
        split: option.splits if_splits sum.splits)
  ultimately show ?thesis
    using assms(1) unfolding GetAdminClient snd_call_simps by simp
next
  case ResetClientInstance
  with assms(2) show ?thesis by simp
next
  case ResetAdminClientInstance
  with assms(1) show ?thesis
    unfolding ResetAdminClientInstance snd_call_simps by (simp add: resetAdminClientInstance_def)
qed

lemma run_calls_keeps_browser:
  assumes "clientInstance rt = Some c" and "ResetClientInstance \<notin> call_of ` set qs"
  shows "clientInstance (snd (run_calls qs rt)) = Some c
         \<and> count_list (external_calls (snd (run_calls qs rt))) (CallFactory CreateSSRBrowserClient)
             = count_list (external_calls rt) (CallFactory CreateSSRBrowserClient)
         \<and> (\<forall>i<length qs. call_of (qs ! i) = GetSupabaseClient
               \<longrightarrow> fst (run_calls qs rt) ! i = Inr (Some c))"
  using assms
proof (induction qs arbitrary: rt)
  case Nil
  then show ?case by simp
next
  case (Cons p qs)
  obtain env fo q where p: "p = (env, fo, q)" by (cases p)
  from Cons.prems(2) have q: "q \<noteq> ResetClientInstance" and rest: "ResetClientInstance \<notin> call_of ` set qs"
    by (auto simp: p call_of_def)
  note step = call_keeps_browser [OF Cons.prems(1) q, of env fo]
  from step have inst: "clientInstance (snd (call env fo q rt)) = Some c" by simp
  note ih = Cons.IH [OF inst rest]
  have nth: "fst (run_calls (p # qs) rt) ! i = Inr (Some c)"
    if "i < length (p # qs)" and "call_of ((p # qs) ! i) = GetSupabaseClient" for i
  proof (cases i)
    case 0
    with that(2) step show ?thesis
      by (simp add: p fst_run_calls_Cons call_of_def del: run_calls.simps call.simps)
  next
    case (Suc j)
    with that ih show ?thesis
      by (simp add: p fst_run_calls_Cons del: run_calls.simps call.simps)
  qed
  from ih step nth show ?case
    unfolding p snd_run_calls_Cons by (simp add: p del: run_calls.simps call.simps)
qed

lemma getSupabaseClient_after_reset:
  "(let rt2 = resetClientInstance rt1;
        logged = rt2\<lparr>external_calls := external_calls rt2 @ [CallFactory CreateSSRBrowserClient]\<rparr>
    in clientInstance rt2 = None
       \<and> getSupabaseClient env fo rt2
           = (if configured env ''NEXT_PUBLIC_SUPABASE_ANON_KEY''
              then (case fo of
                      Inl e \<Rightarrow> (Inl e, logged)
                    | Inr i \<Rightarrow>
                        (Inr \<lparr>object_id = i, factory = CreateSSRBrowserClient,
                              supabaseUrl = the (env ''NEXT_PUBLIC_SUPABASE_URL''),
                              supabaseKey = the (env ''NEXT_PUBLIC_SUPABASE_ANON_KEY''),
                              options = browser_options\<rparr>,
                         logged\<lparr>clientInstance :=
                           Some \<lparr>object_id = i, factory = CreateSSRBrowserClient,
                                 supabaseUrl = the (env ''NEXT_PUBLIC_SUPABASE_URL''),
                                 supabaseKey = the (env ''NEXT_PUBLIC_SUPABASE_ANON_KEY''),
                                 options = browser_options\<rparr>\<rparr>))
              else (Inl (ErrorInstance missing_anon_message), rt2)))"
  by (auto simp: Let_def resetClientInstance_def getSupabaseClient_def bind_def
      createBrowserClient_def configured_def throw_def sdk_create_def split: sum.splits)

lemma call_keeps_admin:
  assumes "adminClientInstance rt = Some c" and "q \<noteq> ResetAdminClientInstance"
  shows "adminClientInstance (snd (call env fo q rt)) = Some c
         \<and> count_list (external_calls (snd (call env fo q rt))) (CallFactory CreateClient)
             = count_list (external_calls rt) (CallFactory CreateClient)
         \<and> (q = GetAdminClient \<longrightarrow> fst (call env fo q rt) = Inr (Some c))"
proof (cases q)
  case GetAdminClient
  from assms(1) have "call env fo GetAdminClient rt = (Inr (Some c), rt)"
    by (simp add: getAdminClient_cached bind_def ret_def)
  with assms(1) show ?thesis by (simp add: GetAdminClient)
next
  case GetSupabaseClient
  have "adminClientInstance (snd (getSupabaseClient env fo rt)) = adminClientInstance rt"
    by (rule getSupabaseClient_keeps_admin)
  moreover have "count_list (external_calls (snd (getSupabaseClient env fo rt))) (CallFactory CreateClient)
      = count_list (external_calls rt) (CallFactory CreateClient)"
    by (auto simp: getSupabaseClient_def bind_def createBrowserClient_def throw_def sdk_create_def Let_def
        split: option.splits if_splits sum.splits)
  ultimately show ?thesis
    using assms(1) unfolding GetSupabaseClient snd_call_simps by simp
next
  case ResetAdminClientInstance
  with assms(2) show ?thesis by simp
next
  case ResetClientInstance
  with assms(1) show ?thesis
    unfolding ResetClientInstance snd_call_simps by (simp add: resetClientInstance_def)
qed

lemma run_calls_keeps_admin:
  assumes "adminClientInstance rt = Some c" and "ResetAdminClientInstance \<notin> call_of ` set qs"
  shows "adminClientInstance (snd (run_calls qs rt)) = Some c
         \<and> count_list (external_calls (snd (run_calls qs rt))) (CallFactory CreateClient)
             = count_list (external_calls rt) (CallFactory CreateClient)
         \<and> (\<forall>i<length qs. call_of (qs ! i) = GetAdminClient
               \<longrightarrow> fst (run_calls qs rt) ! i = Inr (Some c))"
  using assms
proof (induction qs arbitrary: rt)
  case Nil
  then show ?case by simp
next
  case (Cons p qs)
  obtain env fo q where p: "p = (env, fo, q)" by (cases p)
  from Cons.prems(2) have q: "q \<noteq> ResetAdminClientInstance" and rest: "ResetAdminClientInstance \<notin> call_of ` set qs"
    by (auto simp: p call_of_def)
  note step = call_keeps_admin [OF Cons.prems(1) q, of env fo]
  from step have inst: "adminClientInstance (snd (call env fo q rt)) = Some c" by simp
  note ih = Cons.IH [OF inst rest]
  have nth: "fst (run_calls (p # qs) rt) ! i = Inr (Some c)"
    if "i < length (p # qs)" and "call_of ((p # qs) ! i) = GetAdminClient" for i
  proof (cases i)
    case 0
    with that(2) step show ?thesis
      by (simp add: p fst_run_calls_Cons call_of_def del: run_calls.simps call.simps)
  next
    case (Suc j)
    with that ih show ?thesis
      by (simp add: p fst_run_calls_Cons del: run_calls.simps call.simps)
  qed
  from ih step nth show ?case
    unfolding p snd_run_calls_Cons by (simp add: p del: run_calls.simps call.simps)
qed

lemma getAdminClient_after_reset:
  "(let rt2 = resetAdminClientInstance rt1;
        logged = rt2\<lparr>external_calls := external_calls rt2 @ [CallFactory CreateClient]\<rparr>
    in adminClientInstance rt2 = None
       \<and> getAdminClient env fo rt2
           = (if configured env ''SUPABASE_SERVICE_ROLE_KEY''
              then (case fo of
                      Inl e \<Rightarrow> (Inl e, logged)
                    | Inr i \<Rightarrow>
                        (Inr \<lparr>object_id = i, factory = CreateClient,
                              supabaseUrl = the (env ''NEXT_PUBLIC_SUPABASE_URL''),
                              supabaseKey = the (env ''SUPABASE_SERVICE_ROLE_KEY''),
                              options = admin_options\<rparr>,
                         logged\<lparr>adminClientInstance :=
                           Some \<lparr>object_id = i, factory = CreateClient,
                                 supabaseUrl = the (env ''NEXT_PUBLIC_SUPABASE_URL''),
                                 supabaseKey = the (env ''SUPABASE_SERVICE_ROLE_KEY''),
                                 options = admin_options\<rparr>\<rparr>))
              else (Inl (ErrorInstance missing_service_message), rt2)))"
  by (auto simp: Let_def resetAdminClientInstance_def getAdminClient_def bind_def
      createAdminClient_def configured_def throw_def sdk_create_def split: sum.splits)

text \<open>
  C2, as the claim states it, fails: whether the object returned after a reset is a new
  one is decided by the SDK factory, not by the accessor. When the browser factory hands
  back the client it returned before (identity 0 again; the browser factory of
  \<^verbatim>\<open>@supabase/ssr\<close> keeps such a client of its own), the first \<^verbatim>\<open>getSupabaseClient\<close> after
  \<^verbatim>\<open>resetClientInstance\<close> returns the identical instance, although it did call the factory
  again.
\<close>

theorem reset_returns_same_object:
  "getSupabaseClient env_full (Inr 0) initial_runtime
     = (Inr first_browser_client,
        initial_runtime\<lparr>clientInstance := Some first_browser_client,
          external_calls := [CallFactory CreateSSRBrowserClient]\<rparr>)
   \<and> getSupabaseClient env_full (Inr 0)
       (resetClientInstance
         (initial_runtime\<lparr>clientInstance := Some first_browser_client,
            external_calls := [CallFactory CreateSSRBrowserClient]\<rparr>))
     = (Inr first_browser_client,
        initial_runtime\<lparr>clientInstance := Some first_browser_client,
          external_calls := [CallFactory CreateSSRBrowserClient,
                             CallFactory CreateSSRBrowserClient]\<rparr>)"
  by (simp add: getSupabaseClient_def createBrowserClient_def bind_def sdk_create_def
      env_full_def initial_runtime_def first_browser_client_def resetClientInstance_def)

text \<open>
  C2, amended. Once \<^verbatim>\<open>getSupabaseClient\<close> has returned an instance, every later call in a
  sequence of accessor calls without \<^verbatim>\<open>resetClientInstance\<close> returns that same object, the
  module variable keeps holding it and the SDK factory is not called again. After
  \<^verbatim>\<open>resetClientInstance\<close> the variable is empty and the next \<^verbatim>\<open>getSupabaseClient\<close> runs the
  constructor again: with the environment configured it calls the SDK factory once more
  and caches and returns the object the factory returns, or raises what the factory throws
  and caches nothing; otherwise it throws the configuration error before any factory call.
  The same holds for \<^verbatim>\<open>getAdminClient\<close> and \<^verbatim>\<open>resetAdminClientInstance\<close>.
\<close>

theorem singleton_accessors:
  "(getSupabaseClient env0 fo0 rt0 = (Inr c, rt) \<and> ResetClientInstance \<notin> call_of ` set qs \<longrightarrow>
      (\<forall>i<length qs. call_of (qs ! i) = GetSupabaseClient
          \<longrightarrow> fst (run_calls qs rt) ! i = Inr (Some c))
      \<and> clientInstance (snd (run_calls qs rt)) = Some c
      \<and> count_list (external_calls (snd (run_calls qs rt))) (CallFactory CreateSSRBrowserClient)
          = count_list (external_calls rt) (CallFactory CreateSSRBrowserClient)
      \<and> (let rt2 = resetClientInstance (snd (run_calls qs rt));
              logged = rt2\<lparr>external_calls := external_calls rt2 @ [CallFactory CreateSSRBrowserClient]\<rparr>
          in clientInstance rt2 = None
             \<and> getSupabaseClient env fo rt2
                 = (if configured env ''NEXT_PUBLIC_SUPABASE_ANON_KEY''
                    then (case fo of
                            Inl e \<Rightarrow> (Inl e, logged)
                          | Inr i \<Rightarrow>
                              (Inr \<lparr>object_id = i, factory = CreateSSRBrowserClient,
                                    supabaseUrl = the (env ''NEXT_PUBLIC_SUPABASE_URL''),
                                    supabaseKey = the (env ''NEXT_PUBLIC_SUPABASE_ANON_KEY''),
                                    options = browser_options\<rparr>,
                               logged\<lparr>clientInstance :=
                                 Some \<lparr>object_id = i, factory = CreateSSRBrowserClient,
                                       supabaseUrl = the (env ''NEXT_PUBLIC_SUPABASE_URL''),
                                       supabaseKey = the (env ''NEXT_PUBLIC_SUPABASE_ANON_KEY''),
                                       options = browser_options\<rparr>\<rparr>))
                    else (Inl (ErrorInstance missing_anon_message), rt2))))
   \<and> (getAdminClient env0 fo0 rt0 = (Inr ca, rta) \<and> ResetAdminClientInstance \<notin> call_of ` set qsa \<longrightarrow>
      (\<forall>i<length qsa. call_of (qsa ! i) = GetAdminClient
          \<longrightarrow> fst (run_calls qsa rta) ! i = Inr (Some ca))
      \<and> adminClientInstance (snd (run_calls qsa rta)) = Some ca
      \<and> count_list (external_calls (snd (run_calls qsa rta))) (CallFactory CreateClient)
          = count_list (external_calls rta) (CallFactory CreateClient)
      \<and> (let rt2 = resetAdminClientInstance (snd (run_calls qsa rta));
              logged = rt2\<lparr>external_calls := external_calls rt2 @ [CallFactory CreateClient]\<rparr>
          in adminClientInstance rt2 = None
             \<and> getAdminClient env fo rt2
                 = (if configured env ''SUPABASE_SERVICE_ROLE_KEY''
                    then (case fo of
                            Inl e \<Rightarrow> (Inl e, logged)
                          | Inr i \<Rightarrow>
                              (Inr \<lparr>object_id = i, factory = CreateClient,
                                    supabaseUrl = the (env ''NEXT_PUBLIC_SUPABASE_URL''),
                                    supabaseKey = the (env ''SUPABASE_SERVICE_ROLE_KEY''),
                                    options = admin_options\<rparr>,
                               logged\<lparr>adminClientInstance :=
                                 Some \<lparr>object_id = i, factory = CreateClient,
                                       supabaseUrl = the (env ''NEXT_PUBLIC_SUPABASE_URL''),
                                       supabaseKey = the (env ''SUPABASE_SERVICE_ROLE_KEY''),
                                       options = admin_options\<rparr>\<rparr>))
                    else (Inl (ErrorInstance missing_service_message), rt2))))"
proof (rule conjI; rule impI)
  assume h: "getSupabaseClient env0 fo0 rt0 = (Inr c, rt) \<and> ResetClientInstance \<notin> call_of ` set qs"
  then have inst: "clientInstance rt = Some c" by (auto dest: getSupabaseClient_caches)
  from h have nr: "ResetClientInstance \<notin> call_of ` set qs" by simp
  note keep = run_calls_keeps_browser [OF inst nr]
  from keep getSupabaseClient_after_reset [of "snd (run_calls qs rt)" env fo]
  show "(\<forall>i<length qs. call_of (qs ! i) = GetSupabaseClient
          \<longrightarrow> fst (run_calls qs rt) ! i = Inr (Some c))
      \<and> clientInstance (snd (run_calls qs rt)) = Some c
      \<and> count_list (external_calls (snd (run_calls qs rt))) (CallFactory CreateSSRBrowserClient)
          = count_list (external_calls rt) (CallFactory CreateSSRBrowserClient)
      \<and> (let rt2 = resetClientInstance (snd (run_calls qs rt));
              logged = rt2\<lparr>external_calls := external_calls rt2 @ [CallFactory CreateSSRBrowserClient]\<rparr>
          in clientInstance rt2 = None
             \<and> getSupabaseClient env fo rt2
                 = (if configured env ''NEXT_PUBLIC_SUPABASE_ANON_KEY''
                    then (case fo of
                            Inl e \<Rightarrow> (Inl e, logged)
                          | Inr i \<Rightarrow>
                              (Inr \<lparr>object_id = i, factory = CreateSSRBrowserClient,
                                    supabaseUrl = the (env ''NEXT_PUBLIC_SUPABASE_URL''),
                                    supabaseKey = the (env ''NEXT_PUBLIC_SUPABASE_ANON_KEY''),
                                    options = browser_options\<rparr>,
                               logged\<lparr>clientInstance :=
                                 Some \<lparr>object_id = i, factory = CreateSSRBrowserClient,
                                       supabaseUrl = the (env ''NEXT_PUBLIC_SUPABASE_URL''),
                                       supabaseKey = the (env ''NEXT_PUBLIC_SUPABASE_ANON_KEY''),
                                       options = browser_options\<rparr>\<rparr>))
                    else (Inl (ErrorInstance missing_anon_message), rt2)))"
    by simp
next
  assume h: "getAdminClient env0 fo0 rt0 = (Inr ca, rta) \<and> ResetAdminClientInstance \<notin> call_of ` set qsa"
  then have inst: "adminClientInstance rta = Some ca" by (auto dest: getAdminClient_caches)
  from h have nr: "ResetAdminClientInstance \<notin> call_of ` set qsa" by simp
  note keep = run_calls_keeps_admin [OF inst nr]
  from keep getAdminClient_after_reset [of "snd (run_calls qsa rta)" env fo]
  show "(\<forall>i<length qsa. call_of (qsa ! i) = GetAdminClient
          \<longrightarrow> fst (run_calls qsa rta) ! i = Inr (Some ca))
      \<and> adminClientInstance (snd (run_calls qsa rta)) = Some ca
      \<and> count_list (external_calls (snd (run_calls qsa rta))) (CallFactory CreateClient)
          = count_list (external_calls rta) (CallFactory CreateClient)
      \<and> (let rt2 = resetAdminClientInstance (snd (run_calls qsa rta));
              logged = rt2\<lparr>external_calls := external_calls rt2 @ [CallFactory CreateClient]\<rparr>
          in adminClientInstance rt2 = None
             \<and> getAdminClient env fo rt2
                 = (if configured env ''SUPABASE_SERVICE_ROLE_KEY''
                    then (case fo of
                            Inl e \<Rightarrow> (Inl e, logged)
                          | Inr i \<Rightarrow>
                              (Inr \<lparr>object_id = i, factory = CreateClient,
                                    supabaseUrl = the (env ''NEXT_PUBLIC_SUPABASE_URL''),
                                    supabaseKey = the (env ''SUPABASE_SERVICE_ROLE_KEY''),
                                    options = admin_options\<rparr>,
                               logged\<lparr>adminClientInstance :=
                                 Some \<lparr>object_id = i, factory = CreateClient,
                                       supabaseUrl = the (env ''NEXT_PUBLIC_SUPABASE_URL''),
                                       supabaseKey = the (env ''SUPABASE_SERVICE_ROLE_KEY''),
                                       options = admin_options\<rparr>\<rparr>))
                    else (Inl (ErrorInstance missing_service_message), rt2)))"
    by simp
qed

theorem singleton_accessors_witness:
  "getSupabaseClient env_full (Inr 0) initial_runtime
       = (Inr first_browser_client,
          initial_runtime\<lparr>clientInstance := Some first_browser_client,
            external_calls := [CallFactory CreateSSRBrowserClient]\<rparr>)
   \<and> fst (run_calls
          [(env_unset, Inr 1, GetSupabaseClient), (env_full, Inr 2, GetAdminClient),
           (env_full, Inr 3, ResetAdminClientInstance), (env_unset, Inr 4, GetSupabaseClient)]
          (initial_runtime\<lparr>clientInstance := Some first_browser_client,
            external_calls := [CallFactory CreateSSRBrowserClient]\<rparr>)) ! 3
       = Inr (Some first_browser_client)
   \<and> fst (getSupabaseClient env_full (Inr 5) (resetClientInstance (snd (run_calls
          [(env_unset, Inr 1, GetSupabaseClient), (env_full, Inr 2, GetAdminClient),
           (env_full, Inr 3, ResetAdminClientInstance), (env_unset, Inr 4, GetSupabaseClient)]
          (initial_runtime\<lparr>clientInstance := Some first_browser_client,
            external_calls := [CallFactory CreateSSRBrowserClient]\<rparr>)))))
       = Inr (first_browser_client\<lparr>object_id := 5\<rparr>)
   \<and> getAdminClient env_full (Inr 0) initial_runtime
       = (Inr first_admin_client,
          initial_runtime\<lparr>adminClientInstance := Some first_admin_client,
            external_calls := [CallFactory CreateClient]\<rparr>)
   \<and> fst (run_calls
          [(env_unset, Inr 1, GetAdminClient), (env_full, Inr 2, GetSupabaseClient),
           (env_unset, Inr 3, GetAdminClient)]
          (initial_runtime\<lparr>adminClientInstance := Some first_admin_client,
            external_calls := [CallFactory CreateClient]\<rparr>)) ! 2
       = Inr (Some first_admin_client)
   \<and> fst (getAdminClient env_full (Inl (ErrorInstance ''Invalid supabaseUrl''))
          (resetAdminClientInstance (snd (run_calls
            [(env_unset, Inr 1, GetAdminClient), (env_full, Inr 2, GetSupabaseClient),
             (env_unset, Inr 3, GetAdminClient)]
            (initial_runtime\<lparr>adminClientInstance := Some first_admin_client,
              external_calls := [CallFactory CreateClient]\<rparr>)))))
       = Inl (ErrorInstance ''Invalid supabaseUrl'')"
proof -
  let ?rtb = "initial_runtime\<lparr>clientInstance := Some first_browser_client,
            external_calls := [CallFactory CreateSSRBrowserClient]\<rparr>"
  let ?rta = "initial_runtime\<lparr>adminClientInstance := Some first_admin_client,
            external_calls := [CallFactory CreateClient]\<rparr>"
  let ?qs = "[(env_unset, Inr 1, GetSupabaseClient), (env_full, Inr 2, GetAdminClient),
           (env_full, Inr 3, ResetAdminClientInstance), (env_unset, Inr 4, GetSupabaseClient)]"
  let ?qsa = "[(env_unset, Inr 1, GetAdminClient), (env_full, Inr 2, GetSupabaseClient),
           (env_unset, Inr 3, GetAdminClient)]"
  have b: "getSupabaseClient env_full (Inr 0) initial_runtime = (Inr first_browser_client, ?rtb)"
    by (simp add: getSupabaseClient_def createBrowserClient_def bind_def sdk_create_def
        env_full_def initial_runtime_def first_browser_client_def)
  have a: "getAdminClient env_full (Inr 0) initial_runtime = (Inr first_admin_client, ?rta)"
    by (simp add: getAdminClient_def createAdminClient_def bind_def sdk_create_def
        env_full_def initial_runtime_def first_admin_client_def)
  have nb: "ResetClientInstance \<notin> call_of ` set ?qs" by (simp add: call_of_def)
  have na: "ResetAdminClientInstance \<notin> call_of ` set ?qsa" by (simp add: call_of_def)
  have cfg: "configured env_full ''NEXT_PUBLIC_SUPABASE_ANON_KEY''"
    "configured env_full ''SUPABASE_SERVICE_ROLE_KEY''"
    by (simp_all add: configured_def env_full_def)
  note at_browser = singleton_accessors [where ?env0.0 = env_full and ?fo0.0 = "Inr 0"
      and ?rt0.0 = initial_runtime and c = first_browser_client
      and rt = ?rtb and qs = ?qs and env = env_full and fo = "Inr 5"]
  note at_admin = singleton_accessors [where ?env0.0 = env_full and ?fo0.0 = "Inr 0"
      and ?rt0.0 = initial_runtime and ca = first_admin_client
      and rta = ?rta and qsa = ?qsa and env = env_full
      and fo = "Inl (ErrorInstance ''Invalid supabaseUrl'')"]
  from at_browser b nb have "fst (run_calls ?qs ?rtb) ! 3 = Inr (Some first_browser_client)"
    by (simp add: call_of_def del: run_calls.simps)
  moreover
  from at_browser b nb cfg
  have "fst (getSupabaseClient env_full (Inr 5) (resetClientInstance (snd (run_calls ?qs ?rtb))))
      = Inr (first_browser_client\<lparr>object_id := 5\<rparr>)"
    by (simp add: Let_def first_browser_client_def env_full_def del: run_calls.simps)
  moreover
  from at_admin a na have "fst (run_calls ?qsa ?rta) ! 2 = Inr (Some first_admin_client)"
    by (simp add: call_of_def del: run_calls.simps)
  moreover
  from at_admin a na cfg
  have "fst (getAdminClient env_full (Inl (ErrorInstance ''Invalid supabaseUrl''))
          (resetAdminClientInstance (snd (run_calls ?qsa ?rta))))
      = Inl (ErrorInstance ''Invalid supabaseUrl'')"
    by (simp add: Let_def del: run_calls.simps)
  ultimately show ?thesis using a b by simp
qed

section \<open>The authentication hook\<close>

lemmas prog_defs =
  ret_def throw_def bind_def seq_def try_catch_def try_finally_def

lemmas hook_defs =
  setUser_def setSession_def setLoading_def setError_def router_push_def router_refresh_def
  await_auth_def

lemma signOut_resolved_ok:
  "signOut (Inr None) s
     = (Inr (), s\<lparr>user := None, session := None, loading := False, error := None,
                  router_log := router_log s @ [Push ''/'', Refresh],
                  auth_log := auth_log s @ [SignOut]\<rparr>)"
  by (simp add: signOut_def prog_defs hook_defs)

lemma signOut_resolved_error:
  "signOut (Inr (Some e)) s
     = (Inl (ErrorInstance (message e)),
        s\<lparr>loading := False, error := Some (message e), auth_log := auth_log s @ [SignOut]\<rparr>)"
  by (simp add: signOut_def prog_defs hook_defs)

lemma signOut_rejected:
  "signOut (Inl x) s
     = (Inl x,
        s\<lparr>loading := False, error := Some (message_or ''Failed to sign out'' x),
          auth_log := auth_log s @ [SignOut]\<rparr>)"
  by (simp add: signOut_def prog_defs hook_defs)

lemma getInitialSession_resolved_ok:
  "getInitialSession (Inr (x, None)) s
     = (Inr (), s\<lparr>user := map_option session_user x, session := x, loading := False,
                  auth_log := auth_log s @ [GetSession]\<rparr>)"
  by (simp add: getInitialSession_def prog_defs hook_defs)

lemma getInitialSession_resolved_error:
  "getInitialSession (Inr (x, Some e)) s
     = (Inr (), s\<lparr>loading := False, error := Some (message e),
                  auth_log := auth_log s @ [GetSession]\<rparr>)"
  by (simp add: getInitialSession_def prog_defs hook_defs)

lemma getInitialSession_rejected:
  "getInitialSession (Inl x) s
     = (Inr (), s\<lparr>loading := False, error := Some (message_or ''Failed to get session'' x),
                  auth_log := auth_log s @ [GetSession]\<rparr>)"
  by (simp add: getInitialSession_def prog_defs hook_defs)

lemma getInitialSession_log:
  "fst (getInitialSession outcome s) = Inr ()
   \<and> auth_log (snd (getInitialSession outcome s)) = auth_log s @ [GetSession]
   \<and> loading (snd (getInitialSession outcome s)) = False"
proof (cases outcome)
  case (Inl x)
  then show ?thesis by (simp add: getInitialSession_rejected)
next
  case (Inr r)
  obtain x err where r: "r = (x, err)" by (cases r)
  show ?thesis
    by (cases err)
      (simp_all add: Inr r getInitialSession_resolved_ok getInitialSession_resolved_error)
qed

text \<open>
  C4. When the SDK sign-out call resolves without an error, \<^verbatim>\<open>signOut\<close> returns normally and
  leaves the hook with \<open>user\<close> and \<open>session\<close> null and \<open>loading\<close> false; the router has
  received \<^verbatim>\<open>push('/')\<close> followed by \<^verbatim>\<open>refresh()\<close>.
\<close>

theorem signOut_success:
  "fst (signOut (Inr None) s) = Inr ()
   \<and> user (snd (signOut (Inr None) s)) = None
   \<and> session (snd (signOut (Inr None) s)) = None
   \<and> loading (snd (signOut (Inr None) s)) = False
   \<and> router_log (snd (signOut (Inr None) s)) = router_log s @ [Push ''/'', Refresh]"
  by (simp add: signOut_resolved_ok)

text \<open>
  C5, as the claim states it, fails: when the SDK call rejects with a value that is not an
  \<^verbatim>\<open>Error\<close> instance, here the object \<^verbatim>\<open>{ message: 'boom' }\<close>, the error field does not hold that
  value's message but the fixed text.
\<close>

theorem signOut_error_not_message:
  "error (snd (signOut (Inl (PlainValue (Some ''boom''))) initial_component))
     = Some ''Failed to sign out''
   \<and> error (snd (signOut (Inl (PlainValue (Some ''boom''))) initial_component))
     \<noteq> message_of (PlainValue (Some ''boom''))"
  by (simp add: signOut_rejected)

text \<open>
  C5, amended. When the SDK sign-out call returns an error or throws, \<^verbatim>\<open>signOut\<close> re-raises
  the failure, \<open>loading\<close> is false afterwards, and the error field holds the failure's
  message if the failure is an \<^verbatim>\<open>Error\<close> instance (every returned SDK error is one) and the
  fixed text \<^verbatim>\<open>Failed to sign out\<close> if a value of another kind was thrown.
\<close>

theorem signOut_failure:
  "fst (signOut (Inr (Some e)) s) = Inl (ErrorInstance (message e))
   \<and> error (snd (signOut (Inr (Some e)) s)) = Some (message e)
   \<and> loading (snd (signOut (Inr (Some e)) s)) = False
   \<and> fst (signOut (Inl (ErrorInstance m)) s) = Inl (ErrorInstance m)
   \<and> error (snd (signOut (Inl (ErrorInstance m)) s)) = Some m
   \<and> loading (snd (signOut (Inl (ErrorInstance m)) s)) = False
   \<and> fst (signOut (Inl (PlainValue p)) s) = Inl (PlainValue p)
   \<and> error (snd (signOut (Inl (PlainValue p)) s)) = Some ''Failed to sign out''
   \<and> loading (snd (signOut (Inl (PlainValue p)) s)) = False"
  by (simp add: signOut_resolved_error signOut_rejected)

text \<open>
  C9. A failed sign-out, whether the SDK call returned an error or threw, leaves \<open>user\<close>
  and \<open>session\<close> as they were before the call, and sends nothing to the router.
\<close>

theorem signOut_failure_keeps_identity:
  "user (snd (signOut (Inr (Some e)) s)) = user s
   \<and> session (snd (signOut (Inr (Some e)) s)) = session s
   \<and> router_log (snd (signOut (Inr (Some e)) s)) = router_log s
   \<and> user (snd (signOut (Inl x) s)) = user s
   \<and> session (snd (signOut (Inl x) s)) = session s
   \<and> router_log (snd (signOut (Inl x) s)) = router_log s"
  by (simp add: signOut_resolved_error signOut_rejected)

lemma useEffect_body_resolved_ok:
  "useEffect_body (Inr (x, None)) s
     = (Inr (), s\<lparr>user := map_option session_user x, session := x, loading := False,
                  auth_log := auth_log s @ [GetSession, OnAuthStateChange]\<rparr>)"
  by (simp add: useEffect_body_def seq_def bind_def getInitialSession_resolved_ok
      await_auth_def)

lemma useEffect_body_log:
  "auth_log (snd (useEffect_body outcome s)) = auth_log s @ [GetSession, OnAuthStateChange]"
  using getInitialSession_log [of outcome s]
  by (auto simp: useEffect_body_def seq_def bind_def await_auth_def
      split: prod.splits sum.splits)

lemma unmount_mount_log:
  "auth_log (snd (unmount (snd (mount outcome s))))
     = auth_log s @ [GetSession, OnAuthStateChange, Unsubscribe]"
  by (simp add: unmount_def useEffect_cleanup_def await_auth_def mount_def
      useEffect_body_log)

lemma mounts_fetches:
  "count_list (auth_log (mounts outcomes s)) GetSession
     = count_list (auth_log s) GetSession + length outcomes"
proof (induction outcomes arbitrary: s)
  case Nil
  show ?case by simp
next
  case (Cons outcome outcomes)
  have "count_list (auth_log (snd (unmount (snd (mount outcome s))))) GetSession
      = Suc (count_list (auth_log s) GetSession)"
    unfolding unmount_mount_log by (simp add: count_list_append)
  with Cons.IH [of "snd (unmount (snd (mount outcome s)))"] show ?case
    by simp
qed

text \<open>
  C6. The hook starts with \<open>loading\<close> true. When the initial fetch resolves without an
  error, mounting the hook ends in a state where \<open>session\<close> is the fetched session,
  \<open>user\<close> that session's user (null for a null session) and \<open>loading\<close> false; the same
  holds for the effect and for the fetch alone, whatever the state cells hold when they
  run. Each run of the mount effect calls \<^verbatim>\<open>getSession\<close> exactly once and then subscribes,
  whatever the fetch settles with and whatever was called before, so a hook mounted (and
  unmounted) any number of times has fetched exactly once per mount.
\<close>

theorem initial_fetch_success:
  "loading initial_component = True
   \<and> session (snd (getInitialSession (Inr (x, None)) s)) = x
   \<and> user (snd (getInitialSession (Inr (x, None)) s)) = map_option session_user x
   \<and> loading (snd (getInitialSession (Inr (x, None)) s)) = False
   \<and> count_list (auth_log (snd (useEffect_body outcome initial_component))) GetSession = 1
   \<and> fst (mount (Inr (x, None)) previous) = Inr ()
   \<and> session (snd (mount (Inr (x, None)) previous)) = x
   \<and> user (snd (mount (Inr (x, None)) previous)) = map_option session_user x
   \<and> loading (snd (mount (Inr (x, None)) previous)) = False
   \<and> useEffect_body (Inr (x, None)) initial_component
       = (Inr (), \<lparr>user = map_option session_user x, session = x, loading = False,
                   error = None, router_log = [],
                   auth_log = [GetSession, OnAuthStateChange]\<rparr>)
   \<and> session (snd (useEffect_body (Inr (x, None)) s)) = x
   \<and> user (snd (useEffect_body (Inr (x, None)) s)) = map_option session_user x
   \<and> loading (snd (useEffect_body (Inr (x, None)) s)) = False
   \<and> auth_log (snd (useEffect_body outcome s)) = auth_log s @ [GetSession, OnAuthStateChange]
   \<and> auth_log (snd (mount outcome previous))
       = auth_log previous @ [GetSession, OnAuthStateChange]
   \<and> count_list (auth_log (mounts outcomes s)) GetSession
       = count_list (auth_log s) GetSession + length outcomes"
proof -
  have one: "count_list (auth_log (snd (useEffect_body outcome initial_component))) GetSession = 1"
    by (simp add: useEffect_body_log initial_component_def)
  have log: "auth_log (snd (mount outcome previous))
      = auth_log previous @ [GetSession, OnAuthStateChange]"
    by (simp add: mount_def useEffect_body_log)
  have at_initial: "useEffect_body (Inr (x, None)) initial_component
       = (Inr (), \<lparr>user = map_option session_user x, session = x, loading = False,
                   error = None, router_log = [],
                   auth_log = [GetSession, OnAuthStateChange]\<rparr>)"
    by (simp add: useEffect_body_resolved_ok initial_component_def)
  have mounted: "fst (mount (Inr (x, None)) previous) = Inr ()
      \<and> session (snd (mount (Inr (x, None)) previous)) = x
      \<and> user (snd (mount (Inr (x, None)) previous)) = map_option session_user x
      \<and> loading (snd (mount (Inr (x, None)) previous)) = False"
    by (simp add: mount_def useEffect_body_resolved_ok)
  have alone: "session (snd (getInitialSession (Inr (x, None)) s)) = x
      \<and> user (snd (getInitialSession (Inr (x, None)) s)) = map_option session_user x
      \<and> loading (snd (getInitialSession (Inr (x, None)) s)) = False"
    by (simp add: getInitialSession_resolved_ok)
  have effect: "session (snd (useEffect_body (Inr (x, None)) s)) = x
      \<and> user (snd (useEffect_body (Inr (x, None)) s)) = map_option session_user x
      \<and> loading (snd (useEffect_body (Inr (x, None)) s)) = False"
    by (simp add: useEffect_body_resolved_ok)
  have start: "loading initial_component = True"
    by (simp add: initial_component_def)
  from start alone one mounted at_initial effect log
    useEffect_body_log [of outcome s] mounts_fetches [of outcomes s]
  show ?thesis by blast
qed

text \<open>
  C10, as the claim states it, fails in the same way as C5: when the fetch rejects with a
  value that is not an \<^verbatim>\<open>Error\<close> instance, the error field holds the fixed text, not that
  value's message.
\<close>

theorem initial_fetch_error_not_message:
  "error (snd (getInitialSession (Inl (PlainValue (Some ''boom''))) initial_component))
     = Some ''Failed to get session''
   \<and> error (snd (getInitialSession (Inl (PlainValue (Some ''boom''))) initial_component))
     \<noteq> message_of (PlainValue (Some ''boom''))"
  by (simp add: getInitialSession_rejected)

text \<open>
  C10, amended. However the initial fetch settles, \<^verbatim>\<open>getInitialSession\<close> completes and
  \<open>loading\<close> is false afterwards. When the fetch returns an SDK error or throws, \<open>user\<close>
  and \<open>session\<close> keep their values (null, from the initial state), and the error field
  holds the failure's message if the failure is an \<^verbatim>\<open>Error\<close> instance (every returned SDK
  error is one) and the fixed text \<^verbatim>\<open>Failed to get session\<close> if a value of another kind was
  thrown.
\<close>

theorem initial_fetch_failure:
  "fst (getInitialSession outcome s) = Inr ()
   \<and> loading (snd (getInitialSession outcome s)) = False
   \<and> error (snd (getInitialSession (Inr (x, Some e)) s)) = Some (message e)
   \<and> user (snd (getInitialSession (Inr (x, Some e)) s)) = user s
   \<and> session (snd (getInitialSession (Inr (x, Some e)) s)) = session s
   \<and> error (snd (getInitialSession (Inl (ErrorInstance m)) s)) = Some m
   \<and> error (snd (getInitialSession (Inl (PlainValue p)) s)) = Some ''Failed to get session''
   \<and> user (snd (getInitialSession (Inl t) s)) = user s
   \<and> session (snd (getInitialSession (Inl t) s)) = session s
   \<and> user initial_component = None
   \<and> session initial_component = None"
  using getInitialSession_log [of outcome s]
  by (simp add: getInitialSession_resolved_error getInitialSession_rejected
      initial_component_def)

section \<open>Cookie callbacks\<close>

lemma setAll_completion:
  "fst (setAll cookieStore cookiesToSet s) = Inr ()"
  by (simp add: setAll_def try_catch_def ret_def split: prod.splits sum.splits)

lemma forEach_render_store_throws:
  "forEach [\<lparr>cookie_name = ''sb-token'', cookie_value = ''abc'', cookie_options = ()\<rparr>]
     (\<lambda>c. store_set render_store (cookie_name c) (cookie_value c) (cookie_options c))
     [(''theme'', ''dark'')]
   = (Inl (ErrorInstance ''Cookies can only be modified in a Server Action or Route Handler''),
      [(''theme'', ''dark'')])"
  by (simp add: render_store_def prog_defs)

lemma setAll_render_store_returns:
  "setAll render_store
     [\<lparr>cookie_name = ''sb-token'', cookie_value = ''abc'', cookie_options = ()\<rparr>]
     [(''theme'', ''dark'')]
   = (Inr (), [(''theme'', ''dark'')])"
  by (simp add: setAll_def render_store_def prog_defs)

lemma setAll_handler_store_writes:
  "setAll handler_store
     [\<lparr>cookie_name = ''sb-token'', cookie_value = ''abc'', cookie_options = ()\<rparr>,
      \<lparr>cookie_name = ''sb-refresh'', cookie_value = ''xyz'', cookie_options = ()\<rparr>]
     [(''theme'', ''dark'')]
   = (Inr (), [(''theme'', ''dark''), (''sb-token'', ''abc''), (''sb-refresh'', ''xyz'')])"
  by (simp add: setAll_def handler_store_def prog_defs)

text \<open>
  C8. The \<^verbatim>\<open>setAll\<close> callback returns normally for every cookie store, every list of
  cookies to write and every store state, also when the store's \<^verbatim>\<open>set\<close> throws; the
  \<^verbatim>\<open>getAll\<close> callback yields exactly what the store's own \<^verbatim>\<open>getAll\<close> yields.
\<close>

theorem cookie_callbacks_total:
  "fst (setAll cookieStore cookiesToSet s) = Inr ()
   \<and> getAll cookieStore s' = store_getAll cookieStore s'"
  by (simp add: setAll_completion getAll_def)

section \<open>Current user and session\<close>

lemma createServerClient_cases:
  "createServerClient env cookies_outcome factory_outcome rt
     = (if falsy (env ''NEXT_PUBLIC_SUPABASE_URL'') \<or> falsy (env ''NEXT_PUBLIC_SUPABASE_ANON_KEY'')
        then (Inl (ErrorInstance missing_anon_message), rt)
        else case cookies_outcome of
          Inl x \<Rightarrow> (Inl x, rt\<lparr>external_calls := external_calls rt @ [CallCookies]\<rparr>)
        | Inr cookieStore \<Rightarrow>
            (case factory_outcome of
               Inl x \<Rightarrow> Inl x
             | Inr i \<Rightarrow>
                 Inr \<lparr>object_id = i, factory = CreateSSRServerClient,
                      supabaseUrl = the (env ''NEXT_PUBLIC_SUPABASE_URL''),
                      supabaseKey = the (env ''NEXT_PUBLIC_SUPABASE_ANON_KEY''),
                      options = server_options\<rparr>,
             rt\<lparr>external_calls :=
                  external_calls rt @ [CallCookies, CallFactory CreateSSRServerClient]\<rparr>))"
  by (simp add: createServerClient_def Let_def throw_def bind_def await_cookies_def
      sdk_create_def split: sum.splits)

text \<open>
  C3, as the claim states it, fails: with the environment unset both helpers raise the
  configuration error of \<^verbatim>\<open>createServerClient\<close> to their caller, and with the environment
  set a rejection of the SDK call is raised to the caller as well.
\<close>

theorem current_lookup_raises:
  "fst (getCurrentUser env_unset (Inr ()) (Inr 0) (Inr (None, None)) initial_runtime)
     = Inl (ErrorInstance missing_anon_message)
   \<and> fst (getCurrentSession env_unset (Inr ()) (Inr 0) (Inr (None, None)) initial_runtime)
     = Inl (ErrorInstance missing_anon_message)
   \<and> fst (getCurrentUser env_full (Inr ()) (Inr 0) (Inl (ErrorInstance ''fetch failed''))
            initial_runtime)
     = Inl (ErrorInstance ''fetch failed'')
   \<and> fst (getCurrentSession env_full (Inr ()) (Inr 0) (Inl (ErrorInstance ''fetch failed''))
            initial_runtime)
     = Inl (ErrorInstance ''fetch failed'')"
  by (simp add: getCurrentUser_def getCurrentSession_def createServerClient_cases bind_def
      auth_getUser_def auth_getSession_def env_unset_def env_full_def)

text \<open>
  C3, amended. When the server client is constructed and the SDK call resolves, the helper
  returns null for every error reported in the response (and for a response without a user
  or session), and the user or session otherwise. An error thrown while the client is
  constructed (missing configuration, \<^verbatim>\<open>cookies()\<close> rejecting, the SDK factory throwing) and
  a rejection of the SDK call are raised to the caller.
\<close>

theorem current_lookup_errors:
  "(createServerClient env cookies_outcome factory_outcome rt = (Inr c, rt1) \<longrightarrow>
      fst (getCurrentUser env cookies_outcome factory_outcome (Inr (u, Some e)) rt) = Inr None
      \<and> fst (getCurrentUser env cookies_outcome factory_outcome (Inr (None, err)) rt) = Inr None
      \<and> fst (getCurrentUser env cookies_outcome factory_outcome (Inr (Some u', None)) rt)
          = Inr (Some u')
      \<and> fst (getCurrentUser env cookies_outcome factory_outcome (Inl x) rt) = Inl x
      \<and> fst (getCurrentSession env cookies_outcome factory_outcome (Inr (z, Some e)) rt)
          = Inr None
      \<and> fst (getCurrentSession env cookies_outcome factory_outcome (Inr (None, err)) rt)
          = Inr None
      \<and> fst (getCurrentSession env cookies_outcome factory_outcome (Inr (Some z', None)) rt)
          = Inr (Some z')
      \<and> fst (getCurrentSession env cookies_outcome factory_outcome (Inl x) rt) = Inl x)
   \<and> (createServerClient env cookies_outcome factory_outcome rt = (Inl y, rt1) \<longrightarrow>
      getCurrentUser env cookies_outcome factory_outcome user_outcome rt = (Inl y, rt1)
      \<and> getCurrentSession env cookies_outcome factory_outcome session_outcome rt = (Inl y, rt1))"
  by (simp add: getCurrentUser_def getCurrentSession_def bind_def auth_getUser_def
      auth_getSession_def ret_def)

theorem current_lookup_errors_witness:
  "fst (createServerClient env_full (Inr ()) (Inr 0) initial_runtime)
     = Inr \<lparr>object_id = 0, factory = CreateSSRServerClient,
            supabaseUrl = ''https://payeasy.supabase.co'', supabaseKey = ''anon-key'',
            options = server_options\<rparr>
   \<and> fst (getCurrentUser env_full (Inr ()) (Inr 0)
            (Inr (None, Some (AuthError ''Auth session missing!''))) initial_runtime)
     = Inr None
   \<and> fst (getCurrentSession env_full (Inr ()) (Inr 0)
            (Inr (None, Some (AuthError ''Auth session missing!''))) initial_runtime)
     = Inr None
   \<and> fst (getCurrentUser env_full (Inr ()) (Inr 0)
            (Inr (Some \<lparr>user_id = ''u1'', user_email = Some ''a@b.c''\<rparr>, None)) initial_runtime)
     = Inr (Some \<lparr>user_id = ''u1'', user_email = Some ''a@b.c''\<rparr>)
   \<and> createServerClient env_unset (Inr ()) (Inr 0) initial_runtime
     = (Inl (ErrorInstance missing_anon_message), initial_runtime)
   \<and> getCurrentUser env_unset (Inr ()) (Inr 0) (Inr (None, None)) initial_runtime
     = (Inl (ErrorInstance missing_anon_message), initial_runtime)
   \<and> getCurrentSession env_unset (Inr ()) (Inr 0) (Inr (None, None)) initial_runtime
     = (Inl (ErrorInstance missing_anon_message), initial_runtime)"
proof -
  let ?c = "\<lparr>object_id = 0, factory = CreateSSRServerClient,
            supabaseUrl = ''https://payeasy.supabase.co'', supabaseKey = ''anon-key'',
            options = server_options\<rparr>"
  let ?rt1 = "initial_runtime\<lparr>external_calls :=
          [CallCookies, CallFactory CreateSSRServerClient]\<rparr>"
  have full: "createServerClient env_full (Inr ()) (Inr 0) initial_runtime = (Inr ?c, ?rt1)"
    by (simp add: createServerClient_cases env_full_def initial_runtime_def)
  have unset: "createServerClient env_unset (Inr ()) (Inr 0) initial_runtime
      = (Inl (ErrorInstance missing_anon_message), initial_runtime)"
    by (simp add: createServerClient_cases env_unset_def)
  from full unset
    current_lookup_errors [where env = env_full and cookies_outcome = "Inr ()"
      and factory_outcome = "Inr 0"
      and rt = initial_runtime and c = ?c and ?rt1.0 = ?rt1 and u = None
      and e = "AuthError ''Auth session missing!''" and z = None
      and u' = "\<lparr>user_id = ''u1'', user_email = Some ''a@b.c''\<rparr>"]
    current_lookup_errors [where env = env_unset and cookies_outcome = "Inr ()"
      and factory_outcome = "Inr 0"
      and rt = initial_runtime and y = "ErrorInstance missing_anon_message"
      and ?rt1.0 = initial_runtime and user_outcome = "Inr (None, None)"
      and session_outcome = "Inr (None, None)"]
  show ?thesis by simp
qed

end
